theory Spec2Isabelle
  imports Main "HOL-Library.Word" "HOL-Library.Sublist" "HOL-Library.AList"
begin

unbundle bit_operations_syntax

section \<open>Go values\<close>

text \<open>
  A Go \<open>map[string]string\<close> is either nil or a finite map; the two are told apart by
  \<open>m == nil\<close> but read alike: a lookup in either gives the zero value for a missing key.
\<close>

type_synonym strmap = "(string \<rightharpoonup> string) option"

definition entries :: "strmap \<Rightarrow> (string \<rightharpoonup> string)" where
  \<comment> \<open>what \<open>for k, v := range m\<close> visits: nothing for a nil map\<close>
  "entries m = (case m of None \<Rightarrow> Map.empty | Some f \<Rightarrow> f)"

definition index :: "strmap \<Rightarrow> string \<Rightarrow> string" where
  \<comment> \<open>Go's \<open>m[k]\<close> on a \<open>map[string]string\<close>: the empty string for a missing key\<close>
  "index m k = (case entries m k of None \<Rightarrow> [] | Some v \<Rightarrow> v)"

section \<open>pkg/oam/util: merging label and annotation maps\<close>

definition MergeMapOverrideWithDst :: "strmap \<Rightarrow> strmap \<Rightarrow> strmap" where
  "MergeMapOverrideWithDst src dst =
     (if src = None \<and> dst = None then None
      else (let r = Map.empty;
                r = r ++ entries src;
                r = r ++ entries dst
            in Some r))"

text \<open>The objects whose labels and annotations are read and written.\<close>

record labelAnnotationObject =
  Labels :: strmap
  Annotations :: strmap

definition AddLabels :: "labelAnnotationObject \<Rightarrow> strmap \<Rightarrow> labelAnnotationObject" where
  "AddLabels ob labels = ob\<lparr>Labels := MergeMapOverrideWithDst (Labels ob) labels\<rparr>"

definition AddAnnotations :: "labelAnnotationObject \<Rightarrow> strmap \<Rightarrow> labelAnnotationObject" where
  "AddAnnotations ob annos = ob\<lparr>Annotations := MergeMapOverrideWithDst (Annotations ob) annos\<rparr>"

definition PassLabelAndAnnotation ::
  "labelAnnotationObject \<Rightarrow> labelAnnotationObject \<Rightarrow> labelAnnotationObject" where
  "PassLabelAndAnnotation parentObj childObj =
     (let childObj = childObj\<lparr>Labels := MergeMapOverrideWithDst (Labels childObj) (Labels parentObj)\<rparr>;
          childObj = childObj\<lparr>Annotations :=
                        MergeMapOverrideWithDst (Annotations childObj) (Annotations parentObj)\<rparr>
      in childObj)"

section \<open>Unstructured objects\<close>

text \<open>
  An \<open>unstructured.Unstructured\<close> holds a decoded JSON object, \<open>map[string]interface{}\<close>.
  The object is an association list read with \<open>map_of\<close>; a nil map reads as the empty
  one. The accessors below are those of k8s.io/apimachinery that the options call.
\<close>

datatype json =
    JNull
  | JBool bool
  | JNumber int
  | JString string
  | JArray "json list"
  | JObject "(string \<times> json) list"

type_synonym object = "(string \<times> json) list"

record Unstructured =
  Object :: object

text \<open>
  The three results of a nested read: \<open>(v, true, nil)\<close>, \<open>(zero, false, nil)\<close> and
  \<open>(zero, false, err)\<close>.
\<close>

datatype 'a nested = Found 'a | NotFound | NestedError

fun nestedValue :: "json \<Rightarrow> string list \<Rightarrow> json nested" where
  "nestedValue val [] = Found val"
| "nestedValue val (field # fs) =
     (case val of
        JNull \<Rightarrow> NotFound
      | JObject m \<Rightarrow>
          (case map_of m field of
             None \<Rightarrow> NotFound
           | Some v \<Rightarrow> nestedValue v fs)
      | _ \<Rightarrow> NestedError)"

definition NestedFieldNoCopy :: "object \<Rightarrow> string list \<Rightarrow> json nested" where
  "NestedFieldNoCopy obj fs = nestedValue (JObject obj) fs"

definition NestedString :: "object \<Rightarrow> string list \<Rightarrow> string nested" where
  "NestedString obj fs =
     (case NestedFieldNoCopy obj fs of
        Found (JString s) \<Rightarrow> Found s
      | Found _ \<Rightarrow> NestedError
      | NotFound \<Rightarrow> NotFound
      | NestedError \<Rightarrow> NestedError)"

definition NestedBool :: "object \<Rightarrow> string list \<Rightarrow> bool nested" where
  "NestedBool obj fs =
     (case NestedFieldNoCopy obj fs of
        Found (JBool b) \<Rightarrow> Found b
      | Found _ \<Rightarrow> NestedError
      | NotFound \<Rightarrow> NotFound
      | NestedError \<Rightarrow> NestedError)"

definition getNestedString :: "object \<Rightarrow> string list \<Rightarrow> string" where
  "getNestedString obj fs =
     (case NestedString obj fs of Found s \<Rightarrow> s | _ \<Rightarrow> [])"

definition nestedMapNoCopy :: "object \<Rightarrow> string list \<Rightarrow> object nested" where
  "nestedMapNoCopy obj fs =
     (case NestedFieldNoCopy obj fs of
        Found (JObject m) \<Rightarrow> Found m
      | Found _ \<Rightarrow> NestedError
      | NotFound \<Rightarrow> NotFound
      | NestedError \<Rightarrow> NestedError)"

fun isString :: "json \<Rightarrow> bool" where
  "isString (JString s) = True"
| "isString _ = False"

definition stringsOf :: "object \<Rightarrow> (string \<rightharpoonup> string)" where
  "stringsOf m k = (case map_of m k of Some (JString s) \<Rightarrow> Some s | _ \<Rightarrow> None)"

definition NestedStringMap :: "object \<Rightarrow> string list \<Rightarrow> (string \<rightharpoonup> string) nested" where
  \<comment> \<open>an entry that is not a string makes the whole read an error\<close>
  "NestedStringMap obj fs =
     (case nestedMapNoCopy obj fs of
        Found m \<Rightarrow> if list_all (\<lambda>kv. isString (snd kv)) m then Found (stringsOf m) else NestedError
      | NotFound \<Rightarrow> NotFound
      | NestedError \<Rightarrow> NestedError)"

fun RemoveNestedField :: "object \<Rightarrow> string list \<Rightarrow> object" where
  "RemoveNestedField obj [] = obj"
| "RemoveNestedField obj [field] = AList.delete field obj"
| "RemoveNestedField obj (field # fs) =
     (case map_of obj field of
        Some (JObject x) \<Rightarrow> AList.update field (JObject (RemoveNestedField x fs)) obj
      | _ \<Rightarrow> obj)"

text \<open>
  Writing below a path creates the objects that are missing on the way and fails, changing
  nothing, at a value on the way that is not an object.
\<close>

fun SetNestedField :: "object \<Rightarrow> json \<Rightarrow> string list \<Rightarrow> object option" where
  "SetNestedField obj v [] = None"
| "SetNestedField obj v [field] = Some (AList.update field v obj)"
| "SetNestedField obj v (field # fs) =
     (case map_of obj field of
        Some (JObject m) \<Rightarrow>
          map_option (\<lambda>m'. AList.update field (JObject m') obj) (SetNestedField m v fs)
      | Some _ \<Rightarrow> None
      | None \<Rightarrow>
          map_option (\<lambda>m'. AList.update field (JObject m') obj) (SetNestedField [] v fs))"

definition setNestedField :: "Unstructured \<Rightarrow> json \<Rightarrow> string list \<Rightarrow> Unstructured" where
  \<comment> \<open>the method drops the error of the write\<close>
  "setNestedField u v fs =
     (case SetNestedField (Object u) v fs of None \<Rightarrow> u | Some obj \<Rightarrow> u\<lparr>Object := obj\<rparr>)"

definition GetAPIVersion :: "Unstructured \<Rightarrow> string" where
  "GetAPIVersion u = getNestedString (Object u) [''apiVersion'']"

definition GetKind :: "Unstructured \<Rightarrow> string" where
  "GetKind u = getNestedString (Object u) [''kind'']"

definition GetNamespace :: "Unstructured \<Rightarrow> string" where
  "GetNamespace u = getNestedString (Object u) [''metadata'', ''namespace'']"

definition GetName :: "Unstructured \<Rightarrow> string" where
  "GetName u = getNestedString (Object u) [''metadata'', ''name'']"

definition SetName :: "Unstructured \<Rightarrow> string \<Rightarrow> Unstructured" where
  "SetName u name =
     (if length name = 0 then u\<lparr>Object := RemoveNestedField (Object u) [''metadata'', ''name'']\<rparr>
      else setNestedField u (JString name) [''metadata'', ''name''])"

definition GetLabels :: "Unstructured \<Rightarrow> strmap" where
  "GetLabels u =
     (case NestedStringMap (Object u) [''metadata'', ''labels''] of Found m \<Rightarrow> Some m | _ \<Rightarrow> None)"

definition GetAnnotations :: "Unstructured \<Rightarrow> strmap" where
  "GetAnnotations u =
     (case NestedStringMap (Object u) [''metadata'', ''annotations''] of
        Found m \<Rightarrow> Some m | _ \<Rightarrow> None)"

subsection \<open>Owner references\<close>

record OwnerReference =
  APIVersion :: string
  Kind :: string
  Name :: string
  UID :: string
  Controller :: "bool option"
  BlockOwnerDeletion :: "bool option"

definition boolPtr :: "bool nested \<Rightarrow> bool option" where
  "boolPtr r = (case r of Found b \<Rightarrow> Some b | _ \<Rightarrow> None)"

definition extractOwnerReference :: "object \<Rightarrow> OwnerReference" where
  "extractOwnerReference v =
     \<lparr>APIVersion = getNestedString v [''apiVersion''],
      Kind = getNestedString v [''kind''],
      Name = getNestedString v [''name''],
      UID = getNestedString v [''uid''],
      Controller = boolPtr (NestedBool v [''controller'']),
      BlockOwnerDeletion = boolPtr (NestedBool v [''blockOwnerDeletion''])\<rparr>"

fun extractAll :: "json list \<Rightarrow> OwnerReference list option" where
  \<comment> \<open>the loop of \<open>GetOwnerReferences\<close>: an element that is not an object ends it with nil\<close>
  "extractAll [] = Some []"
| "extractAll (JObject ob # rest) = map_option (\<lambda>refs. extractOwnerReference ob # refs) (extractAll rest)"
| "extractAll (_ # rest) = None"

definition GetOwnerReferences :: "Unstructured \<Rightarrow> OwnerReference list" where
  "GetOwnerReferences u =
     (case NestedFieldNoCopy (Object u) [''metadata'', ''ownerReferences''] of
        Found (JArray original) \<Rightarrow> (case extractAll original of None \<Rightarrow> [] | Some refs \<Rightarrow> refs)
      | _ \<Rightarrow> [])"

definition GetControllerOf :: "Unstructured \<Rightarrow> OwnerReference option" where
  \<comment> \<open>a pointer to a copy of the first reference whose controller flag is set, or nil\<close>
  "GetControllerOf controllee = find (\<lambda>ref. Controller ref = Some True) (GetOwnerReferences controllee)"

subsection \<open>Group, version and kind\<close>

record GroupVersionKind =
  Group :: string
  Version :: string
  GVKind :: string

definition ParseGroupVersion :: "string \<Rightarrow> (string \<times> string) option" where
  "ParseGroupVersion gv =
     (if length gv = 0 \<or> gv = ''/'' then Some ([], [])
      else (case count_list gv (CHR ''/'') of
              0 \<Rightarrow> Some ([], gv)
            | Suc 0 \<Rightarrow> (let i = length (takeWhile (\<lambda>c. c \<noteq> CHR ''/'') gv)
                        in Some (take i gv, drop (i + 1) gv))
            | _ \<Rightarrow> None))"

definition GetGroupVersionKind :: "Unstructured \<Rightarrow> GroupVersionKind" where
  \<comment> \<open>the method \<open>GroupVersionKind()\<close> of an unstructured object\<close>
  "GetGroupVersionKind u =
     (case ParseGroupVersion (GetAPIVersion u) of
        None \<Rightarrow> \<lparr>Group = [], Version = [], GVKind = []\<rparr>
      | Some (g, v) \<Rightarrow> \<lparr>Group = g, Version = v, GVKind = GetKind u\<rparr>)"

definition GVKString :: "GroupVersionKind \<Rightarrow> string" where
  "GVKString gvk = Group gvk @ ''/'' @ Version gvk @ '', Kind='' @ GVKind gvk"

section \<open>Strings\<close>

fun Contains :: "string \<Rightarrow> string \<Rightarrow> bool" where
  "Contains [] substr = (substr = [])"
| "Contains (c # s) substr = (prefix substr (c # s) \<or> Contains s substr)"

definition TrimSuffix :: "string \<Rightarrow> string \<Rightarrow> string" where
  "TrimSuffix s suf = (if suffix suf s then take (length s - length suf) s else s)"

definition lowerByte :: "char \<Rightarrow> char" where
  "lowerByte c =
     (if of_char (CHR ''A'') \<le> (of_char c :: nat) \<and> (of_char c :: nat) \<le> of_char (CHR ''Z'')
      then char_of (of_char c + (32 :: nat)) else c)"

text \<open>
  \<open>strings.ToLower\<close> lowers a string of ASCII bytes byte by byte; a string with a byte
  from 128 on goes through \<open>strings.Map(unicode.ToLower, s)\<close>, which is a parameter
  \<open>MapLower\<close>: the case tables of Unicode are not modelled.
\<close>

definition ToLower :: "(string \<Rightarrow> string) \<Rightarrow> string \<Rightarrow> string" where
  "ToLower MapLower s =
     (if list_all (\<lambda>c. (of_char c :: nat) < 128) s then map lowerByte s else MapLower s)"

fun joinDots :: "string list \<Rightarrow> string" where
  "joinDots [] = []"
| "joinDots [f] = f"
| "joinDots (f # fs) = f @ ''.'' @ joinDots fs"

section \<open>Field paths\<close>

text \<open>
  The paved object of crossplane-runtime's \<open>fieldpath\<close> shares the map it was given, so a
  write through it is a write to the object. The paths used here name fields only, with
  no brackets and no quotes: parsing one splits it at the dots.
\<close>

type_synonym error = string

fun Parse :: "string \<Rightarrow> string list" where
  "Parse [] = [[]]"
| "Parse (c # cs) =
     (if c = CHR ''.'' then [] # Parse cs
      else (case Parse cs of [] \<Rightarrow> [[c]] | w # ws \<Rightarrow> (c # w) # ws))"

fun setValue :: "object \<Rightarrow> string list \<Rightarrow> string list \<Rightarrow> json \<Rightarrow> error + object" where
  "setValue ob seen [] v = Inr ob"
| "setValue ob seen [f] v = Inr (AList.update f v ob)"
| "setValue ob seen (f # rest) v =
     (case map_of ob f of
        None \<Rightarrow>
          (case setValue [] (seen @ [f]) rest v of
             Inl e \<Rightarrow> Inl e
           | Inr child \<Rightarrow> Inr (AList.update f (JObject child) ob))
      | Some (JObject child) \<Rightarrow>
          (case setValue child (seen @ [f]) rest v of
             Inl e \<Rightarrow> Inl e
           | Inr child' \<Rightarrow> Inr (AList.update f (JObject child') ob))
      | Some _ \<Rightarrow> Inl (joinDots (seen @ [f]) @ '' is not an object''))"

definition Pave :: "object \<Rightarrow> object" where
  "Pave ob = ob"

definition SetBool :: "object \<Rightarrow> string \<Rightarrow> bool \<Rightarrow> error + object" where
  "SetBool pv path b = setValue pv [] (Parse path) (JBool b)"

definition UnstructuredContent :: "Unstructured \<Rightarrow> object" where
  "UnstructuredContent u = Object u"

section \<open>pkg/oam/util: raw extensions and trait names\<close>

record RawExtension =
  Raw :: string

text \<open>
  \<open>json.Unmarshal\<close> into a \<open>map[string]interface{}\<close> is a parameter: the decoder of the
  standard library, from the raw bytes to an error or the decoded object.
\<close>

definition RawExtension2Unstructured ::
  "(string \<Rightarrow> error + object) \<Rightarrow> RawExtension \<Rightarrow> error + Unstructured" where
  "RawExtension2Unstructured Unmarshal raw =
     (case Unmarshal (Raw raw) of
        Inl err \<Rightarrow> Inl err
      | Inr objMap \<Rightarrow> Inr \<lparr>Object = objMap\<rparr>)"

definition TraitPrefixKey :: string where
  "TraitPrefixKey = ''trait''"

definition Dummy :: string where
  "Dummy = ''dummy''"

text \<open>The 32-bit FNV-1a hash of \<open>hash/fnv\<close>: its state is the running sum.\<close>

definition offset32 :: "32 word" where
  "offset32 = 2166136261"

definition prime32 :: "32 word" where
  "prime32 = 16777619"

fun Write32a :: "32 word \<Rightarrow> string \<Rightarrow> 32 word" where
  "Write32a hash [] = hash"
| "Write32a hash (c # data) = Write32a ((hash XOR of_char c) * prime32) data"

definition digit :: "nat \<Rightarrow> char" where
  "digit d = ''0123456789'' ! d"

fun Sprint :: "nat \<Rightarrow> string" where
  \<comment> \<open>\<open>fmt.Sprint\<close> of an unsigned integer: its decimal digits\<close>
  "Sprint n = (if n < 10 then [digit n] else Sprint (n div 10) @ [digit (n mod 10)])"

declare Sprint.simps [simp del]

definition alphanums :: string where
  "alphanums = ''bcdfghjklmnpqrstvwxz2456789''"

definition SafeEncodeString :: "string \<Rightarrow> string" where
  \<comment> \<open>\<open>rand.SafeEncodeString\<close> of apimachinery, on a string of ASCII bytes\<close>
  "SafeEncodeString s = map (\<lambda>b. alphanums ! (of_char b mod length alphanums)) s"

text \<open>
  The deep printer of go-spew is a parameter \<open>Fprintf\<close>: the bytes that
  \<open>printer.Fprintf(hasher, "%#v", objectToWrite)\<close> writes for an object, with keys sorted
  and methods disabled. The type of component traits is a type variable; a pointer to a
  component trait is an option, nil being \<open>None\<close>. A call either panics or returns.
\<close>

datatype 'a called = Panics string | Returns 'a

definition DeepHashObject :: "('a \<Rightarrow> string) \<Rightarrow> 32 word \<Rightarrow> 'a \<Rightarrow> 32 word" where
  "DeepHashObject Fprintf hasher objectToWrite =
     (let hasher = offset32
      in Write32a hasher (Fprintf objectToWrite))"

definition ComputeHash :: "('a \<Rightarrow> string) \<Rightarrow> 'a option \<Rightarrow> string called" where
  \<comment> \<open>\<open>*trait\<close> panics on a nil pointer\<close>
  "ComputeHash Fprintf trait =
     (case trait of
        None \<Rightarrow> Panics ''invalid memory address or nil pointer dereference''
      | Some pointee \<Rightarrow>
          (let componentTraitHasher = DeepHashObject Fprintf offset32 pointee
           in Returns (SafeEncodeString (Sprint (unat componentTraitHasher)))))"

definition GenTraitName ::
  "('a \<Rightarrow> string) \<Rightarrow> (string \<Rightarrow> string) \<Rightarrow> string \<Rightarrow> 'a option \<Rightarrow> string \<Rightarrow> string called" where
  "GenTraitName Fprintf MapLower componentName ct traitType =
     (let traitMiddleName = TraitPrefixKey;
          traitMiddleName =
            (if traitType \<noteq> [] \<and> traitType \<noteq> Dummy then ToLower MapLower traitType
             else traitMiddleName)
      in case ComputeHash Fprintf ct of
           Panics msg \<Rightarrow> Panics msg
         | Returns hash \<Rightarrow> Returns (componentName @ ''-'' @ traitMiddleName @ ''-'' @ hash))"

section \<open>assemble: the workload options\<close>

record CommonHelm =
  Release :: RawExtension
  Repository :: RawExtension

record ComponentSpec =
  Workload :: RawExtension
  Helm :: "CommonHelm option"

record Component =
  ComponentName :: string
  Spec :: ComponentSpec

record ObjectKey =
  KeyNamespace :: string
  KeyName :: string

text \<open>
  A read of the cluster, \<open>c.Get(ctx, key, obj)\<close>: from the key and the object handed in
  to an error or the object filled in. The reads an option issues are part of its result.
\<close>

type_synonym Reader = "ObjectKey \<Rightarrow> Unstructured \<Rightarrow> error + Unstructured"

record discovery =
  gets :: "ObjectKey list"
  workload :: Unstructured
  returned :: "error option"

definition Wrap :: "error \<Rightarrow> string \<Rightarrow> error" where
  "Wrap err message = message @ '': '' @ err"

definition qualifiedWorkloadName :: "string \<Rightarrow> string \<Rightarrow> string" where
  \<comment> \<open>lines 80 to 86 of \<open>discoverHelmModuleWorkload\<close>\<close>
  "qualifiedWorkloadName rlsName chartName =
     (let qualifiedWorkloadName = rlsName
      in if \<not> Contains rlsName chartName then
           (let qualifiedWorkloadName = rlsName @ ''-'' @ chartName
            in if length qualifiedWorkloadName > 63
               then TrimSuffix (take 63 qualifiedWorkloadName) ''-''
               else qualifiedWorkloadName)
         else qualifiedWorkloadName)"

definition helmMismatch :: "string \<Rightarrow> string \<Rightarrow> error" where
  "helmMismatch rlsName ns =
     ''the workload is found but not match with helm info(meta.helm.sh/release-name: '' @ rlsName
       @ '', meta.helm.sh/namespace: '' @ ns @ '', app.kubernetes.io/managed-by: Helm)''"

definition discoverHelmModuleWorkload ::
  "(string \<Rightarrow> error + object) \<Rightarrow> string list \<Rightarrow> Reader \<Rightarrow> Unstructured \<Rightarrow> Component option
     \<Rightarrow> discovery" where
  "discoverHelmModuleWorkload Unmarshal HelmChartNamePath c assembledWorkload component =
     (case (case component of None \<Rightarrow> None | Some cp \<Rightarrow> Helm (Spec cp)) of
        None \<Rightarrow> \<lparr>gets = [], workload = assembledWorkload, returned = None\<rparr>
      | Some helm \<Rightarrow>
          (let ns = GetNamespace assembledWorkload
           in case RawExtension2Unstructured Unmarshal (Release helm) of
                Inl err \<Rightarrow>
                  \<lparr>gets = [], workload = assembledWorkload,
                   returned = Some (Wrap err ''cannot get helm release from component'')\<rparr>
              | Inr rls \<Rightarrow>
                  (let rlsName = GetName rls
                   in case NestedString (Object rls) HelmChartNamePath of
                        Found chartName \<Rightarrow>
                          (let key = \<lparr>KeyNamespace = ns,
                                      KeyName = qualifiedWorkloadName rlsName chartName\<rparr>
                           in case c key \<lparr>Object = []\<rparr> of
                                Inl err \<Rightarrow>
                                  \<lparr>gets = [key], workload = assembledWorkload, returned = Some err\<rparr>
                              | Inr workloadByHelm \<Rightarrow>
                                  (let annots = GetAnnotations workloadByHelm;
                                       labels = GetLabels workloadByHelm
                                   in if annots = None \<or> labels = None
                                         \<or> index annots ''meta.helm.sh/release-name'' \<noteq> rlsName
                                         \<or> index annots ''meta.helm.sh/release-namespace'' \<noteq> ns
                                         \<or> index labels ''app.kubernetes.io/managed-by'' \<noteq> ''Helm''
                                      then \<lparr>gets = [key], workload = assembledWorkload,
                                            returned = Some (helmMismatch rlsName ns)\<rparr>
                                      else \<lparr>gets = [key], workload = workloadByHelm,
                                            returned = None\<rparr>))
                      | _ \<Rightarrow>
                          \<lparr>gets = [], workload = assembledWorkload,
                           returned = Some ''cannot get helm chart name''\<rparr>)))"

text \<open>
  The other two options read no cluster. A run of one either panics or returns, leaving
  the workload it was given in some state and handing back an error or nil.
\<close>

datatype run = Panic string | Return Unstructured "error option"

definition NameNonInplaceUpgradableWorkload :: "string \<Rightarrow> Unstructured \<Rightarrow> run" where
  \<comment> \<open>the label key \<open>oam.LabelAppComponentRevision\<close> is a parameter\<close>
  "NameNonInplaceUpgradableWorkload LabelAppComponentRevision wl =
     (let compRevName = index (GetLabels wl) LabelAppComponentRevision;
          wl = SetName wl compRevName
      in Return wl None)"

definition cloneSetDisablePath :: string where
  "cloneSetDisablePath = ''spec.updateStrategy.paused''"

definition advancedStatefulSetDisablePath :: string where
  "advancedStatefulSetDisablePath = ''spec.updateStrategy.rollingUpdate.paused''"

definition deploymentDisablePath :: string where
  "deploymentDisablePath = ''spec.paused''"

definition kruiseGroup :: string where
  \<comment> \<open>\<open>kruisev1alpha1.GroupVersion.Group\<close>\<close>
  "kruiseGroup = ''apps.kruise.io''"

definition appsGroupName :: string where
  \<comment> \<open>\<open>appsv1.GroupName\<close>\<close>
  "appsGroupName = ''apps''"

definition unknownType :: "Unstructured \<Rightarrow> error" where
  "unknownType assembledWorkload =
     ''we do not know how to prepare `'' @ GetName assembledWorkload
       @ ''` as it has an unknown type '' @ GVKString (GetGroupVersionKind assembledWorkload)"

definition PrepareWorkloadForRollout :: "Unstructured \<Rightarrow> run" where
  "PrepareWorkloadForRollout assembledWorkload =
     (case GetControllerOf assembledWorkload of
        None \<Rightarrow> Panic ''invalid memory address or nil pointer dereference''
      | Some ownerRef \<Rightarrow>
          (let ownerRef = ownerRef\<lparr>Controller := Some False\<rparr>;
               pv = Pave (UnstructuredContent assembledWorkload)
           in if Group (GetGroupVersionKind assembledWorkload) = kruiseGroup then
                (if GetKind assembledWorkload = ''CloneSet'' then
                   (case SetBool pv cloneSetDisablePath True of
                      Inl err \<Rightarrow> Return assembledWorkload (Some err)
                    | Inr pv' \<Rightarrow> Return (assembledWorkload\<lparr>Object := pv'\<rparr>) None)
                 else if GetKind assembledWorkload = ''StatefulSet'' then
                   (case SetBool pv advancedStatefulSetDisablePath True of
                      Inl err \<Rightarrow> Return assembledWorkload (Some err)
                    | Inr pv' \<Rightarrow> Return (assembledWorkload\<lparr>Object := pv'\<rparr>) None)
                 else Return assembledWorkload (Some (unknownType assembledWorkload)))
              else if Group (GetGroupVersionKind assembledWorkload) = appsGroupName
                      \<and> GetKind assembledWorkload = ''Deployment'' then
                (case SetBool pv deploymentDisablePath True of
                   Inl err \<Rightarrow> Return assembledWorkload (Some err)
                 | Inr pv' \<Rightarrow> Return (assembledWorkload\<lparr>Object := pv'\<rparr>) None)
              else Return assembledWorkload (Some (unknownType assembledWorkload))))"

text \<open>
  A \<open>WorkloadOptionFn\<close> takes the assembled workload and the component (the component
  definition, which no option here reads, is left out). The three constructors wrap the
  functions above; the reader, the decoder and the label key are their parameters.
\<close>

type_synonym WorkloadOptionFn = "Unstructured \<Rightarrow> Component option \<Rightarrow> run"


definition NameByRevision :: "string \<Rightarrow> WorkloadOptionFn" where
  \<comment> \<open>the option that \<open>NameNonInplaceUpgradableWorkload()\<close> returns\<close>
  "NameByRevision LabelAppComponentRevision wl component =
     NameNonInplaceUpgradableWorkload LabelAppComponentRevision wl"


section \<open>The claims' own words\<close>

text \<open>The three kinds the pre-rollout preparation knows, and the pause field of each.\<close>

definition knownKind :: "Unstructured \<Rightarrow> bool" where
  "knownKind wl =
     ((Group (GetGroupVersionKind wl) = ''apps.kruise.io'' \<and> GetKind wl = ''CloneSet'')
      \<or> (Group (GetGroupVersionKind wl) = ''apps.kruise.io'' \<and> GetKind wl = ''StatefulSet'')
      \<or> (Group (GetGroupVersionKind wl) = ''apps'' \<and> GetKind wl = ''Deployment''))"

definition pausePath :: "Unstructured \<Rightarrow> string list option" where
  "pausePath wl =
     (if Group (GetGroupVersionKind wl) = ''apps.kruise.io'' \<and> GetKind wl = ''CloneSet''
        then Some [''spec'', ''updateStrategy'', ''paused'']
      else if Group (GetGroupVersionKind wl) = ''apps.kruise.io'' \<and> GetKind wl = ''StatefulSet''
        then Some [''spec'', ''updateStrategy'', ''rollingUpdate'', ''paused'']
      else if Group (GetGroupVersionKind wl) = ''apps'' \<and> GetKind wl = ''Deployment''
        then Some [''spec'', ''paused'']
      else None)"

text \<open>A path is blocked in an object when a value on the way to its last field is not an object.\<close>

fun blocked :: "object \<Rightarrow> string list \<Rightarrow> bool" where
  "blocked ob [] = False"
| "blocked ob [f] = False"
| "blocked ob (f # rest) =
     (case map_of ob f of
        None \<Rightarrow> False
      | Some (JObject child) \<Rightarrow> blocked child rest
      | Some _ \<Rightarrow> True)"

definition offPath :: "string list \<Rightarrow> string list \<Rightarrow> bool" where
  \<comment> \<open>neither path leads through the other\<close>
  "offPath q p = (\<not> prefix q p \<and> \<not> prefix p q)"


text \<open>
  A live object matches a release when it has annotations and labels and the three keys
  read, a missing key reading as the empty string, as the release name, the namespace and
  \<open>Helm\<close>.
\<close>

definition provenanceMatches :: "Unstructured \<Rightarrow> string \<Rightarrow> string \<Rightarrow> bool" where
  "provenanceMatches live rlsName ns =
     (GetAnnotations live \<noteq> None \<and> GetLabels live \<noteq> None
      \<and> index (GetAnnotations live) ''meta.helm.sh/release-name'' = rlsName
      \<and> index (GetAnnotations live) ''meta.helm.sh/release-namespace'' = ns
      \<and> index (GetLabels live) ''app.kubernetes.io/managed-by'' = ''Helm'')"

text \<open>The 32-bit FNV-1a hash of a byte string, and the middle part of a trait's name.\<close>

definition fnv32a :: "string \<Rightarrow> 32 word" where
  "fnv32a bytes = foldl (\<lambda>h c. (h XOR of_char c) * 16777619) 2166136261 bytes"

definition middleName :: "(string \<Rightarrow> string) \<Rightarrow> string \<Rightarrow> string" where
  "middleName MapLower traitType =
     (if traitType = [] \<or> traitType = ''dummy'' then ''trait'' else ToLower MapLower traitType)"

section \<open>Example objects\<close>

definition applicationOwner :: json where
  "applicationOwner =
     JObject [(''apiVersion'', JString ''core.oam.dev/v1beta1''), (''kind'', JString ''Application''),
              (''name'', JString ''test-assemble''), (''uid'', JString ''a-uid''),
              (''controller'', JBool True), (''blockOwnerDeletion'', JBool True)]"

definition orphanJob :: Unstructured where
  "orphanJob =
     \<lparr>Object = [(''apiVersion'', JString ''batch/v1''), (''kind'', JString ''Job''),
                (''metadata'', JObject [(''name'', JString ''test-comp'')])]\<rparr>"

definition ownedJob :: Unstructured where
  "ownedJob =
     \<lparr>Object = [(''apiVersion'', JString ''batch/v1''), (''kind'', JString ''Job''),
                (''metadata'', JObject [(''name'', JString ''test-comp''),
                                        (''ownerReferences'', JArray [applicationOwner])])]\<rparr>"

definition ownedDeployment :: Unstructured where
  "ownedDeployment =
     \<lparr>Object = [(''apiVersion'', JString ''apps/v1''), (''kind'', JString ''Deployment''),
                (''metadata'',
                   JObject [(''name'', JString ''test-comp''), (''namespace'', JString ''default''),
                            (''labels'', JObject [(''app.oam.dev/revision'', JString ''test-comp-v1'')]),
                            (''ownerReferences'', JArray [applicationOwner])]),
                (''spec'', JObject [(''replicas'', JNumber 1)])]\<rparr>"

definition pausedDeployment :: Unstructured where
  "pausedDeployment =
     \<lparr>Object = [(''apiVersion'', JString ''apps/v1''), (''kind'', JString ''Deployment''),
                (''metadata'',
                   JObject [(''name'', JString ''test-comp''), (''namespace'', JString ''default''),
                            (''labels'', JObject [(''app.oam.dev/revision'', JString ''test-comp-v1'')]),
                            (''ownerReferences'', JArray [applicationOwner])]),
                (''spec'', JObject [(''replicas'', JNumber 1), (''paused'', JBool True)])]\<rparr>"

definition brokenDeployment :: Unstructured where
  \<comment> \<open>a Deployment whose \<open>spec\<close> is a string\<close>
  "brokenDeployment =
     \<lparr>Object = [(''apiVersion'', JString ''apps/v1''), (''kind'', JString ''Deployment''),
                (''metadata'',
                   JObject [(''name'', JString ''test-comp''), (''namespace'', JString ''default''),
                            (''ownerReferences'', JArray [applicationOwner])]),
                (''spec'', JString ''replicas: 1'')]\<rparr>"

definition podinfoRelease :: object where
  "podinfoRelease =
     [(''apiVersion'', JString ''helm.toolkit.fluxcd.io/v2beta1''), (''kind'', JString ''HelmRelease''),
      (''metadata'', JObject [(''name'', JString ''myrelease'')]),
      (''spec'', JObject [(''chart'', JObject [(''spec'', JObject [(''chart'', JString ''podinfo'')])])])]"

definition decodeRelease :: "string \<Rightarrow> error + object" where
  "decodeRelease raw =
     (if raw = ''podinfo-release'' then Inr podinfoRelease else Inl ''unexpected end of JSON input'')"

definition chartNamePath :: "string list" where
  "chartNamePath = [''spec'', ''chart'', ''spec'', ''chart'']"

definition podinfoComponent :: Component where
  "podinfoComponent =
     \<lparr>ComponentName = ''test-comp'',
      Spec = \<lparr>Workload = \<lparr>Raw = []\<rparr>,
              Helm = Some \<lparr>Release = \<lparr>Raw = ''podinfo-release''\<rparr>, Repository = \<lparr>Raw = []\<rparr>\<rparr>\<rparr>\<rparr>"

definition plainComponent :: Component where
  "plainComponent =
     \<lparr>ComponentName = ''test-comp'', Spec = \<lparr>Workload = \<lparr>Raw = []\<rparr>, Helm = None\<rparr>\<rparr>"

definition helmDeployment :: Unstructured where
  "helmDeployment =
     \<lparr>Object = [(''apiVersion'', JString ''apps/v1''), (''kind'', JString ''Deployment''),
                (''metadata'',
                   JObject [(''name'', JString ''myrelease-podinfo''), (''namespace'', JString ''default''),
                            (''annotations'',
                               JObject [(''meta.helm.sh/release-name'', JString ''myrelease''),
                                        (''meta.helm.sh/release-namespace'', JString ''default'')]),
                            (''labels'', JObject [(''app.kubernetes.io/managed-by'', JString ''Helm'')])]),
                (''spec'', JObject [(''replicas'', JNumber 2)])]\<rparr>"

definition foreignDeployment :: Unstructured where
  "foreignDeployment =
     \<lparr>Object = [(''apiVersion'', JString ''apps/v1''), (''kind'', JString ''Deployment''),
                (''metadata'',
                   JObject [(''name'', JString ''myrelease-podinfo''), (''namespace'', JString ''default''),
                            (''labels'', JObject [(''app'', JString ''other'')])]),
                (''spec'', JObject [(''replicas'', JNumber 5)])]\<rparr>"

definition emptyCluster :: Reader where
  "emptyCluster key ob = Inl ''not found''"

definition clusterOf :: "Unstructured \<Rightarrow> Reader" where
  "clusterOf live key ob =
     (if KeyNamespace key = GetNamespace live \<and> KeyName key = GetName live then Inr live
      else Inl ''not found'')"

section \<open>The resource assembler\<close>




















section \<open>Properties of the merge\<close>

lemma entries_Merge:
  "entries (MergeMapOverrideWithDst src dst) = entries src ++ entries dst"
  by (simp add: MergeMapOverrideWithDst_def entries_def)

lemma AddLabels_new_value_wins:
  "entries labels k = Some v \<Longrightarrow> entries (Labels (AddLabels ob labels)) k = Some v"
  by (simp add: AddLabels_def entries_Merge)

text \<open>
  Claim C10. For all string maps \<open>src\<close> and \<open>dst\<close>, the merged map holds at every key the
  value of \<open>dst\<close> when the key is in \<open>dst\<close> and the value of \<open>src\<close> otherwise; the result
  is nil exactly when both arguments are nil, so an empty map that is not nil, on either
  side, gives a result that is not nil.
\<close>

theorem MergeMapOverrideWithDst_dst_wins:
  "entries (MergeMapOverrideWithDst src dst) k =
     (case entries dst k of Some v \<Rightarrow> Some v | None \<Rightarrow> entries src k)
   \<and> ((MergeMapOverrideWithDst src dst = None) = (src = None \<and> dst = None))
   \<and> MergeMapOverrideWithDst (Some Map.empty) dst \<noteq> None
   \<and> MergeMapOverrideWithDst src (Some Map.empty) \<noteq> None"
  by (simp add: MergeMapOverrideWithDst_def entries_def map_add_def split: option.splits)

section \<open>Pre-rollout preparation\<close>

lemma GetControllerOf_None:
  "(GetControllerOf wl = None) =
     list_all (\<lambda>ref. Controller ref \<noteq> Some True) (GetOwnerReferences wl)"
  by (auto simp: GetControllerOf_def find_None_iff list_all_iff)

lemma prepare_unknown:
  assumes "GetControllerOf wl \<noteq> None" and "\<not> knownKind wl"
  shows "PrepareWorkloadForRollout wl = Return wl (Some (unknownType wl))"
  using assms
  by (auto simp: PrepareWorkloadForRollout_def knownKind_def kruiseGroup_def appsGroupName_def
        Let_def)

text \<open>
  Claim C1, as amended. For every assembled workload that carries a controller owner
  reference and whose group and kind are none of the three known ones (kruise CloneSet,
  kruise advanced StatefulSet, Deployment of group apps), the pre-rollout preparation
  returns the error "we do not know how to prepare ... as it has an unknown type ..." and
  leaves the workload as it was: it neither succeeds nor skips the workload.
\<close>

theorem PrepareWorkloadForRollout_unknown_kind:
  assumes "GetControllerOf wl \<noteq> None" and "\<not> knownKind wl"
  shows "PrepareWorkloadForRollout wl = Return wl (Some (unknownType wl))"
  using assms by (rule prepare_unknown)

theorem PrepareWorkloadForRollout_unknown_kind_witness:
  "GetControllerOf ownedJob \<noteq> None \<and> \<not> knownKind ownedJob
   \<and> PrepareWorkloadForRollout ownedJob =
       Return ownedJob
         (Some ''we do not know how to prepare `test-comp` as it has an unknown type batch/v1, Kind=Job'')"
proof -
  have owner: "GetControllerOf ownedJob \<noteq> None" by code_simp
  have kind: "\<not> knownKind ownedJob" by code_simp
  have message: "unknownType ownedJob =
    ''we do not know how to prepare `test-comp` as it has an unknown type batch/v1, Kind=Job''"
    by code_simp
  from PrepareWorkloadForRollout_unknown_kind[OF owner kind] owner kind message
  show ?thesis by simp
qed

text \<open>
  The claim as it stands fails on a workload of an unknown kind that has no controller
  owner reference: the option panics before it looks at the kind.
\<close>

theorem PrepareWorkloadForRollout_unknown_kind_orphan:
  "\<not> knownKind orphanJob
   \<and> PrepareWorkloadForRollout orphanJob = Panic ''invalid memory address or nil pointer dereference''"
  by code_simp

text \<open>
  Claim C6. The preparation presupposes a controller owner reference. When no owner
  reference of the workload has its controller flag set, \<open>GetControllerOf\<close> gives nil and
  the write through it panics, where an error might have been returned; when one has, the
  option does not panic and returns.
\<close>

theorem PrepareWorkloadForRollout_nil_owner:
  "(list_all (\<lambda>ref. Controller ref \<noteq> Some True) (GetOwnerReferences wl) \<longrightarrow>
      GetControllerOf wl = None
      \<and> PrepareWorkloadForRollout wl = Panic ''invalid memory address or nil pointer dereference'')
   \<and> (\<not> list_all (\<lambda>ref. Controller ref \<noteq> Some True) (GetOwnerReferences wl) \<longrightarrow>
      (\<exists>wl' e. PrepareWorkloadForRollout wl = Return wl' e))"
proof (cases "GetControllerOf wl")
  case None
  then show ?thesis
    by (simp add: GetControllerOf_None[symmetric] PrepareWorkloadForRollout_def)
next
  case (Some ref)
  then have "\<exists>wl' e. PrepareWorkloadForRollout wl = Return wl' e"
    by (simp add: PrepareWorkloadForRollout_def Let_def split: sum.splits)
  with Some show ?thesis by (simp add: GetControllerOf_None[symmetric])
qed

theorem PrepareWorkloadForRollout_nil_owner_witness:
  "list_all (\<lambda>ref. Controller ref \<noteq> Some True) (GetOwnerReferences orphanJob)
   \<and> PrepareWorkloadForRollout orphanJob = Panic ''invalid memory address or nil pointer dereference''
   \<and> \<not> list_all (\<lambda>ref. Controller ref \<noteq> Some True) (GetOwnerReferences ownedDeployment)
   \<and> (\<exists>wl' e. PrepareWorkloadForRollout ownedDeployment = Return wl' e)"
proof -
  have none: "list_all (\<lambda>ref. Controller ref \<noteq> Some True) (GetOwnerReferences orphanJob)"
    by code_simp
  have one: "\<not> list_all (\<lambda>ref. Controller ref \<noteq> Some True) (GetOwnerReferences ownedDeployment)"
    by code_simp
  from none one PrepareWorkloadForRollout_nil_owner[of orphanJob]
    PrepareWorkloadForRollout_nil_owner[of ownedDeployment]
  show ?thesis by blast
qed

subsection \<open>Writing a value below a path\<close>

lemma blocked_empty: "\<not> blocked [] p"
proof (cases p)
  case (Cons f rest)
  then show ?thesis by (cases rest) simp_all
qed simp

lemma setValue_blocked:
  "blocked ob p \<Longrightarrow> \<exists>e. setValue ob seen p v = Inl e"
  by (induction ob seen p v rule: setValue.induct)
     (auto simp: blocked_empty split: option.splits json.splits sum.splits)

lemma setValue_free:
  "\<not> blocked ob p \<Longrightarrow> \<exists>ob'. setValue ob seen p v = Inr ob'"
  by (induction ob seen p v rule: setValue.induct)
     (auto simp: blocked_empty split: option.splits json.splits sum.splits)

lemma setValue_reads_back:
  "setValue ob seen p v = Inr ob' \<Longrightarrow> p \<noteq> [] \<Longrightarrow> nestedValue (JObject ob') p = Found v"
proof (induction ob seen p v arbitrary: ob' rule: setValue.induct)
  case (1 ob seen v)
  then show ?case by simp
next
  case (2 ob seen f v)
  then show ?case by (auto simp: update_conv')
next
  case (3 ob seen f r rs v)
  show ?case
  proof (cases "map_of ob f")
    case None
    with 3(3) obtain child where c: "setValue [] (seen @ [f]) (r # rs) v = Inr child"
      and ob': "ob' = AList.update f (JObject child) ob"
      by (auto split: sum.splits)
    from 3(1)[OF None c] show ?thesis using ob' by (simp add: update_conv')
  next
    case (Some j)
    with 3(3) obtain old where j: "j = JObject old" by (cases j) auto
    with Some 3(3) obtain child where c: "setValue old (seen @ [f]) (r # rs) v = Inr child"
      and ob': "ob' = AList.update f (JObject child) ob"
      by (auto split: sum.splits)
    from 3(2)[OF Some j c] show ?thesis using ob' by (simp add: update_conv')
  qed
qed

lemma setValue_frame:
  "setValue ob seen p v = Inr ob' \<Longrightarrow> \<not> prefix q p \<Longrightarrow> \<not> prefix p q \<Longrightarrow>
   nestedValue (JObject ob') q = nestedValue (JObject ob) q"
proof (induction ob seen p v arbitrary: ob' q rule: setValue.induct)
  case (1 ob seen v)
  then show ?case by simp
next
  case (2 ob seen f v)
  then obtain g qs where q: "q = g # qs" by (cases q) auto
  with 2 have "g \<noteq> f" by auto
  with 2 q show ?case by (auto simp: update_conv')
next
  case (3 ob seen f r rs v)
  then obtain g qs where q: "q = g # qs" by (cases q) auto
  show ?case
  proof (cases "g = f")
    case False
    with 3 q show ?thesis
      by (auto simp: update_conv' split: option.splits json.splits sum.splits)
  next
    case True
    with 3(4,5) q have sep: "\<not> prefix qs (r # rs)" "\<not> prefix (r # rs) qs" by auto
    show ?thesis
    proof (cases "map_of ob f")
      case None
      with 3(3) obtain child where c: "setValue [] (seen @ [f]) (r # rs) v = Inr child"
        and ob': "ob' = AList.update f (JObject child) ob"
        by (auto split: sum.splits)
      from 3(1)[OF None c sep] have "nestedValue (JObject child) qs = nestedValue (JObject []) qs" .
      moreover have "nestedValue (JObject []) qs = NotFound"
        using sep(1) by (cases qs) auto
      ultimately show ?thesis using None q True ob' by (simp add: update_conv')
    next
      case (Some j)
      with 3(3) obtain old where j: "j = JObject old" by (cases j) auto
      with Some 3(3) obtain child where c: "setValue old (seen @ [f]) (r # rs) v = Inr child"
        and ob': "ob' = AList.update f (JObject child) ob"
        by (auto split: sum.splits)
      from 3(2)[OF Some j c sep] show ?thesis
        using Some j q True ob' by (simp add: update_conv')
    qed
  qed
qed

lemma Parse_paths:
  "Parse cloneSetDisablePath = [''spec'', ''updateStrategy'', ''paused'']"
  "Parse advancedStatefulSetDisablePath = [''spec'', ''updateStrategy'', ''rollingUpdate'', ''paused'']"
  "Parse deploymentDisablePath = [''spec'', ''paused'']"
  by (simp_all add: cloneSetDisablePath_def advancedStatefulSetDisablePath_def
        deploymentDisablePath_def)


lemma prepare_known:
  assumes "pausePath wl = Some p" and "GetControllerOf wl = Some ref"
  shows "PrepareWorkloadForRollout wl =
           (case setValue (Object wl) [] p (JBool True) of
              Inl err \<Rightarrow> Return wl (Some err)
            | Inr ob \<Rightarrow> Return (wl\<lparr>Object := ob\<rparr>) None)"
  using assms
  by (auto simp: pausePath_def PrepareWorkloadForRollout_def Let_def SetBool_def Pave_def
        UnstructuredContent_def Parse_paths kruiseGroup_def appsGroupName_def
      split: if_splits)

lemma prepare_blocked:
  assumes "GetControllerOf wl \<noteq> None" and "pausePath wl = Some p" and "blocked (Object wl) p"
  shows "\<exists>e. PrepareWorkloadForRollout wl = Return wl (Some e)"
proof -
  from assms(1) obtain ref where ref: "GetControllerOf wl = Some ref" by auto
  from setValue_blocked[OF assms(3)] obtain e where
    "setValue (Object wl) [] p (JBool True) = Inl e" by blast
  then show ?thesis by (simp add: prepare_known[OF assms(2) ref])
qed

lemma prepare_pauses:
  assumes "GetControllerOf wl \<noteq> None" and "pausePath wl = Some p" and "\<not> blocked (Object wl) p"
  shows "\<exists>wl'. PrepareWorkloadForRollout wl = Return wl' None
           \<and> NestedBool (Object wl') p = Found True
           \<and> (\<forall>q. offPath q p \<and> offPath q [''metadata'', ''ownerReferences'']
                  \<longrightarrow> NestedFieldNoCopy (Object wl') q = NestedFieldNoCopy (Object wl) q)"
proof -
  from assms(1) obtain ref where ref: "GetControllerOf wl = Some ref" by auto
  from setValue_free[OF assms(3)] obtain ob where
    ob: "setValue (Object wl) [] p (JBool True) = Inr ob" by blast
  have run: "PrepareWorkloadForRollout wl = Return (wl\<lparr>Object := ob\<rparr>) None"
    by (simp add: prepare_known[OF assms(2) ref] ob)
  have "p \<noteq> []" using assms(2) by (auto simp: pausePath_def split: if_splits)
  from setValue_reads_back[OF ob this]
  have readback: "NestedBool ob p = Found True"
    by (simp add: NestedBool_def NestedFieldNoCopy_def)
  have frame: "NestedFieldNoCopy ob q = NestedFieldNoCopy (Object wl) q" if "offPath q p" for q
    using setValue_frame[OF ob] that by (simp add: NestedFieldNoCopy_def offPath_def)
  from run readback frame show ?thesis by simp
qed

text \<open>
  Claim C5, as amended. For every assembled workload of a known kind that carries a
  controller owner reference, the pre-rollout preparation goes by the pause path of that
  kind: \<open>spec.updateStrategy.paused\<close> for a kruise CloneSet,
  \<open>spec.updateStrategy.rollingUpdate.paused\<close> for a kruise advanced StatefulSet,
  \<open>spec.paused\<close> for a Deployment. When no value on the way of the path is a non-object,
  it returns no error and sets the field at the path to true, and every field off that
  path reads as before; nothing is said here of the owner references. When a value on the
  way is not an object, it returns an error and leaves the workload as it was.
\<close>

theorem PrepareWorkloadForRollout_pauses:
  assumes "GetControllerOf wl \<noteq> None" and "pausePath wl = Some p"
  shows "(\<not> blocked (Object wl) p \<longrightarrow>
            (\<exists>wl'. PrepareWorkloadForRollout wl = Return wl' None
               \<and> NestedBool (Object wl') p = Found True
               \<and> (\<forall>q. offPath q p \<and> offPath q [''metadata'', ''ownerReferences'']
                      \<longrightarrow> NestedFieldNoCopy (Object wl') q = NestedFieldNoCopy (Object wl) q)))
         \<and> (blocked (Object wl) p \<longrightarrow> (\<exists>e. PrepareWorkloadForRollout wl = Return wl (Some e)))"
  using prepare_pauses[OF assms] prepare_blocked[OF assms] by blast

theorem PrepareWorkloadForRollout_pauses_witness:
  "GetControllerOf ownedDeployment \<noteq> None
   \<and> pausePath ownedDeployment = Some [''spec'', ''paused'']
   \<and> \<not> blocked (Object ownedDeployment) [''spec'', ''paused'']
   \<and> (\<exists>wl'. PrepareWorkloadForRollout ownedDeployment = Return wl' None
           \<and> NestedBool (Object wl') [''spec'', ''paused''] = Found True
           \<and> (\<forall>q. offPath q [''spec'', ''paused'']
                    \<and> offPath q [''metadata'', ''ownerReferences'']
                  \<longrightarrow> NestedFieldNoCopy (Object wl') q = NestedFieldNoCopy (Object ownedDeployment) q))
   \<and> GetControllerOf brokenDeployment \<noteq> None
   \<and> pausePath brokenDeployment = Some [''spec'', ''paused'']
   \<and> blocked (Object brokenDeployment) [''spec'', ''paused'']
   \<and> (\<exists>e. PrepareWorkloadForRollout brokenDeployment = Return brokenDeployment (Some e))"
proof -
  have owner: "GetControllerOf ownedDeployment \<noteq> None" by code_simp
  have path: "pausePath ownedDeployment = Some [''spec'', ''paused'']" by code_simp
  have free: "\<not> blocked (Object ownedDeployment) [''spec'', ''paused'']" by code_simp
  have owner': "GetControllerOf brokenDeployment \<noteq> None" by code_simp
  have path': "pausePath brokenDeployment = Some [''spec'', ''paused'']" by code_simp
  have stuck: "blocked (Object brokenDeployment) [''spec'', ''paused'']" by code_simp
  from PrepareWorkloadForRollout_pauses[OF owner path] PrepareWorkloadForRollout_pauses[OF owner' path']
    owner path free owner' path' stuck
  show ?thesis by blast
qed

text \<open>
  The claim as it stands fails on a Deployment whose \<open>spec\<close> is not an object: the option
  returns the error of the write and sets nothing. It also fails in what it says of the
  owner reference: on a well-formed Deployment the option returns no error, pauses the
  workload, and the controller owner reference of the workload still has its flag set,
  since the flag is cleared in the copy that \<open>GetControllerOf\<close> hands out.
\<close>

theorem PrepareWorkloadForRollout_pauses_counterexample:
  "knownKind brokenDeployment
   \<and> PrepareWorkloadForRollout brokenDeployment = Return brokenDeployment (Some ''spec is not an object'')
   \<and> knownKind ownedDeployment
   \<and> PrepareWorkloadForRollout ownedDeployment = Return pausedDeployment None
   \<and> map Controller (GetOwnerReferences pausedDeployment) = [Some True]"
  by code_simp

section \<open>Discovery of a workload that Helm creates\<close>




lemma provenanceMatches_present:
  assumes "rlsName \<noteq> []" and "ns \<noteq> []"
  shows "provenanceMatches live rlsName ns =
           (entries (GetAnnotations live) ''meta.helm.sh/release-name'' = Some rlsName
            \<and> entries (GetAnnotations live) ''meta.helm.sh/release-namespace'' = Some ns
            \<and> entries (GetLabels live) ''app.kubernetes.io/managed-by'' = Some ''Helm'')"
  using assms
  by (auto simp: provenanceMatches_def index_def entries_def split: option.splits)


lemma podinfo_decodes:
  "RawExtension2Unstructured decodeRelease (Release \<lparr>Release = \<lparr>Raw = ''podinfo-release''\<rparr>,
      Repository = \<lparr>Raw = []\<rparr>\<rparr>) = Inr \<lparr>Object = podinfoRelease\<rparr>"
  by (simp add: RawExtension2Unstructured_def decodeRelease_def)

lemma podinfo_helm:
  "Helm (Spec podinfoComponent) =
     Some \<lparr>Release = \<lparr>Raw = ''podinfo-release''\<rparr>, Repository = \<lparr>Raw = []\<rparr>\<rparr>"
  by (simp add: podinfoComponent_def)

lemma podinfo_chart:
  "NestedString (Object \<lparr>Object = podinfoRelease\<rparr>) chartNamePath = Found ''podinfo''"
  by code_simp

lemma podinfo_name: "GetName \<lparr>Object = podinfoRelease\<rparr> = ''myrelease''"
  by code_simp


text \<open>
  Claim C4. For every Helm-based component whose release decodes and names its chart, the
  discovery option returns an error in exactly two cases of the read: the read fails (no
  live object under the full name), and its error is returned as it is; or the read finds
  an object whose annotations \<open>meta.helm.sh/release-name\<close> and
  \<open>meta.helm.sh/release-namespace\<close> or whose label \<open>app.kubernetes.io/managed-by\<close> do not
  match the release name, the namespace and \<open>Helm\<close>. In both the assembled workload stays
  as it was. Only when all three match is the assembled workload replaced by the live
  object, with no error.
\<close>

theorem discoverHelmModuleWorkload_outcomes:
  assumes "component = Some cp" and "Helm (Spec cp) = Some helm"
    and "RawExtension2Unstructured Unmarshal (Release helm) = Inr rls"
    and "NestedString (Object rls) path = Found C"
    and "key = \<lparr>KeyNamespace = GetNamespace wl, KeyName = qualifiedWorkloadName (GetName rls) C\<rparr>"
  shows "discoverHelmModuleWorkload Unmarshal path c wl component =
           (case c key \<lparr>Object = []\<rparr> of
              Inl err \<Rightarrow> \<lparr>gets = [key], workload = wl, returned = Some err\<rparr>
            | Inr live \<Rightarrow>
                if provenanceMatches live (GetName rls) (GetNamespace wl)
                then \<lparr>gets = [key], workload = live, returned = None\<rparr>
                else \<lparr>gets = [key], workload = wl,
                      returned = Some (helmMismatch (GetName rls) (GetNamespace wl))\<rparr>)"
  using assms
  by (auto simp: discoverHelmModuleWorkload_def Let_def provenanceMatches_def split: sum.splits)

theorem discoverHelmModuleWorkload_outcomes_witness:
  "discoverHelmModuleWorkload decodeRelease chartNamePath emptyCluster ownedDeployment
       (Some podinfoComponent) =
     \<lparr>gets = [\<lparr>KeyNamespace = ''default'', KeyName = ''myrelease-podinfo''\<rparr>],
      workload = ownedDeployment, returned = Some ''not found''\<rparr>
   \<and> discoverHelmModuleWorkload decodeRelease chartNamePath (clusterOf foreignDeployment)
       ownedDeployment (Some podinfoComponent) =
     \<lparr>gets = [\<lparr>KeyNamespace = ''default'', KeyName = ''myrelease-podinfo''\<rparr>],
      workload = ownedDeployment, returned = Some (helmMismatch ''myrelease'' ''default'')\<rparr>
   \<and> discoverHelmModuleWorkload decodeRelease chartNamePath (clusterOf helmDeployment)
       ownedDeployment (Some podinfoComponent) =
     \<lparr>gets = [\<lparr>KeyNamespace = ''default'', KeyName = ''myrelease-podinfo''\<rparr>],
      workload = helmDeployment, returned = None\<rparr>"
proof -
  let ?key = "\<lparr>KeyNamespace = ''default'', KeyName = ''myrelease-podinfo''\<rparr>"
  have ns: "GetNamespace ownedDeployment = ''default''" by code_simp
  have name: "qualifiedWorkloadName ''myrelease'' ''podinfo'' = ''myrelease-podinfo''" by code_simp
  have key: "?key = \<lparr>KeyNamespace = GetNamespace ownedDeployment,
      KeyName = qualifiedWorkloadName (GetName \<lparr>Object = podinfoRelease\<rparr>) ''podinfo''\<rparr>"
    by (simp add: ns name podinfo_name)
  note run = discoverHelmModuleWorkload_outcomes[OF refl podinfo_helm podinfo_decodes podinfo_chart key]
  have foreign: "clusterOf foreignDeployment ?key \<lparr>Object = []\<rparr> = Inr foreignDeployment" by code_simp
  have helm: "clusterOf helmDeployment ?key \<lparr>Object = []\<rparr> = Inr helmDeployment" by code_simp
  have no: "\<not> provenanceMatches foreignDeployment ''myrelease'' ''default''" by code_simp
  have yes: "provenanceMatches helmDeployment ''myrelease'' ''default''" by code_simp
  have "discoverHelmModuleWorkload decodeRelease chartNamePath emptyCluster ownedDeployment
       (Some podinfoComponent) = \<lparr>gets = [?key], workload = ownedDeployment, returned = Some ''not found''\<rparr>"
    by (simp add: run emptyCluster_def)
  moreover have "discoverHelmModuleWorkload decodeRelease chartNamePath (clusterOf foreignDeployment)
       ownedDeployment (Some podinfoComponent) =
     \<lparr>gets = [?key], workload = ownedDeployment, returned = Some (helmMismatch ''myrelease'' ''default'')\<rparr>"
    by (simp add: run foreign no ns podinfo_name)
  moreover have "discoverHelmModuleWorkload decodeRelease chartNamePath (clusterOf helmDeployment)
       ownedDeployment (Some podinfoComponent) =
     \<lparr>gets = [?key], workload = helmDeployment, returned = None\<rparr>"
    by (simp add: run helm yes ns podinfo_name)
  ultimately show ?thesis by simp
qed

text \<open>
  Claim C9. For every component that is not Helm-based (the component is nil, or its Helm
  part is nil) the discovery option returns no error, reads nothing from the cluster and
  leaves the assembled workload as it was.
\<close>

theorem discoverHelmModuleWorkload_not_helm:
  assumes "component = None \<or> (\<exists>cp. component = Some cp \<and> Helm (Spec cp) = None)"
  shows "discoverHelmModuleWorkload Unmarshal path c wl component =
           \<lparr>gets = [], workload = wl, returned = None\<rparr>"
  using assms by (auto simp: discoverHelmModuleWorkload_def)

theorem discoverHelmModuleWorkload_not_helm_witness:
  "discoverHelmModuleWorkload decodeRelease chartNamePath (clusterOf helmDeployment)
       ownedDeployment None =
     \<lparr>gets = [], workload = ownedDeployment, returned = None\<rparr>
   \<and> Helm (Spec plainComponent) = None
   \<and> discoverHelmModuleWorkload decodeRelease chartNamePath (clusterOf helmDeployment)
       ownedDeployment (Some plainComponent) =
     \<lparr>gets = [], workload = ownedDeployment, returned = None\<rparr>"
proof -
  have plain: "Helm (Spec plainComponent) = None" by (simp add: plainComponent_def)
  from discoverHelmModuleWorkload_not_helm[of None]
    discoverHelmModuleWorkload_not_helm[of "Some plainComponent"] plain
  show ?thesis by simp
qed

section \<open>Trait names\<close>

lemma Write32a_foldl: "Write32a h data = foldl (\<lambda>h c. (h XOR of_char c) * 16777619) h data"
  by (induction data arbitrary: h) (simp_all add: prime32_def)

lemma DeepHashObject_fnv: "DeepHashObject F hasher x = fnv32a (F x)"
  by (simp add: DeepHashObject_def fnv32a_def Write32a_foldl offset32_def)

lemma Sprint_nonempty: "Sprint n \<noteq> []"
  by (subst Sprint.simps) simp

lemma digit_inj:
  assumes "d < 10" and "e < 10" and "digit d = digit e"
  shows "d = e"
proof -
  have "distinct ''0123456789''" by simp
  with assms show ?thesis by (simp add: digit_def nth_eq_iff_index_eq)
qed

lemma Sprint_inj: "Sprint m = Sprint n \<Longrightarrow> m = n"
proof (induction m arbitrary: n rule: Sprint.induct)
  case (1 m)
  show ?case
  proof (cases "m < 10")
    case True
    then have m: "Sprint m = [digit m]" by (subst Sprint.simps) simp
    show ?thesis
    proof (cases "n < 10")
      case True
      then have "Sprint n = [digit n]" by (subst Sprint.simps) simp
      with m 1(2) \<open>m < 10\<close> True show ?thesis by (auto dest: digit_inj)
    next
      case False
      then have "Sprint n = Sprint (n div 10) @ [digit (n mod 10)]" by (subst Sprint.simps) simp
      with m 1(2) Sprint_nonempty[of "n div 10"] show ?thesis by simp
    qed
  next
    case False
    then have m: "Sprint m = Sprint (m div 10) @ [digit (m mod 10)]" by (subst Sprint.simps) simp
    show ?thesis
    proof (cases "n < 10")
      case True
      then have "Sprint n = [digit n]" by (subst Sprint.simps) simp
      with m 1(2) Sprint_nonempty[of "m div 10"] show ?thesis by simp
    next
      case nbig: False
      then have n: "Sprint n = Sprint (n div 10) @ [digit (n mod 10)]" by (subst Sprint.simps) simp
      from m n 1(2) have eq: "Sprint (m div 10) = Sprint (n div 10)"
        and d: "digit (m mod 10) = digit (n mod 10)" by simp_all
      from 1(1)[OF False eq] have "m div 10 = n div 10" .
      moreover have "m mod 10 = n mod 10" by (rule digit_inj[OF _ _ d]) simp_all
      ultimately show ?thesis by (metis div_mult_mod_eq)
    qed
  qed
qed

lemma digit_in:
  assumes "d < 10"
  shows "digit d \<in> set ''0123456789''"
proof -
  from assms have "d < length ''0123456789''" by simp
  then show ?thesis unfolding digit_def by (rule nth_mem)
qed

lemma Sprint_digits: "set (Sprint n) \<subseteq> set ''0123456789''"
proof (induction n rule: Sprint.induct)
  case (1 n)
  show ?case
  proof (cases "n < 10")
    case True
    then show ?thesis using digit_in[OF True] by (subst Sprint.simps) simp
  next
    case False
    have "n mod 10 < 10" by simp
    from digit_in[OF this] 1[OF False] False show ?thesis by (subst Sprint.simps) simp
  qed
qed

lemma encode_distinct:
  "distinct (map (\<lambda>b. alphanums ! (of_char b mod length alphanums)) ''0123456789'')"
  by (simp add: alphanums_def)

lemma SafeEncodeString_inj:
  assumes "SafeEncodeString (Sprint m) = SafeEncodeString (Sprint n)"
  shows "m = n"
proof -
  have "inj_on (\<lambda>b. alphanums ! (of_char b mod length alphanums)) (set ''0123456789'')"
    using encode_distinct by (simp only: distinct_map)
  then have "inj_on (\<lambda>b. alphanums ! (of_char b mod length alphanums))
               (set (Sprint m) \<union> set (Sprint n))"
    by (rule inj_on_subset) (use Sprint_digits in blast)
  with assms have "Sprint m = Sprint n"
    unfolding SafeEncodeString_def by (rule inj_on_map_eq_map[THEN iffD1, rotated])
  then show ?thesis by (rule Sprint_inj)
qed

lemma ToLower_ascii:
  assumes "list_all (\<lambda>c. (of_char c :: nat) < 128) s"
  shows "ToLower MapLower s = map lowerByte s"
  using assms by (simp add: ToLower_def)

lemma trait_name_parts:
  "GenTraitName F M componentName (Some x) traitType =
     Returns (componentName @ ''-'' @ middleName M traitType @ ''-''
       @ SafeEncodeString (Sprint (unat (fnv32a (F x)))))"
  by (simp add: GenTraitName_def ComputeHash_def DeepHashObject_fnv middleName_def Dummy_def
        TraitPrefixKey_def Let_def)

lemma trait_names_equal:
  "(GenTraitName F M componentName (Some ct) traitType
      = GenTraitName F M componentName (Some ct') traitType)
     = (fnv32a (F ct) = fnv32a (F ct'))"
  using SafeEncodeString_inj by (auto simp: trait_name_parts word_unat_eq_iff)

lemma trait_name_nil:
  "GenTraitName F M componentName None traitType
     = Panics ''invalid memory address or nil pointer dereference''"
  by (simp add: GenTraitName_def ComputeHash_def Let_def)

text \<open>
  Claim C7, as amended. For every component name, component trait that is not a nil
  pointer and trait type, the generated trait name is the component name, \<open>-\<close>, a middle
  part, \<open>-\<close> and a hash: the middle part is the trait type lowered by
  \<open>strings.ToLower\<close>, or \<open>trait\<close> when the trait type is empty or \<open>dummy\<close>; the hash
  is the safe encoding of the decimal FNV-32a sum of the deep print of the whole component
  trait. The name is a function of these inputs, and two traits of one component and one
  type get the same name exactly when the FNV-32a sums of their deep prints are equal:
  traits with different sums get different names.
\<close>

theorem GenTraitName_form:
  "GenTraitName F M componentName (Some ct) traitType =
     Returns (componentName @ ''-'' @ middleName M traitType @ ''-''
       @ SafeEncodeString (Sprint (unat (fnv32a (F ct)))))
   \<and> ((GenTraitName F M componentName (Some ct) traitType
         = GenTraitName F M componentName (Some ct') traitType)
        = (fnv32a (F ct) = fnv32a (F ct')))"
  by (simp only: trait_name_parts[symmetric] trait_names_equal simp_thms)

lemma fnv_liquid: "Write32a offset32 ''liquid'' = 1582148253"
  by (simp add: offset32_def prime32_def)

lemma fnv_costarring: "Write32a offset32 ''costarring'' = 1582148253"
  by (simp add: offset32_def prime32_def)

text \<open>
  The claim as it stands fails where two deep prints have one FNV-32a sum: with a trait
  standing for the bytes of its deep print, the prints \<open>costarring\<close> and \<open>liquid\<close> differ
  and give one name. It fails also at a nil pointer, where the call panics and gives no
  name.
\<close>

theorem GenTraitName_collision:
  "''costarring'' \<noteq> ''liquid''
   \<and> GenTraitName (\<lambda>ct. ct) (\<lambda>s. s) ''test-comp'' (Some ''costarring'') ''manualscaler''
     = GenTraitName (\<lambda>ct. ct) (\<lambda>s. s) ''test-comp'' (Some ''liquid'') ''manualscaler''
   \<and> GenTraitName (\<lambda>ct. ct) (\<lambda>s. s) ''test-comp'' None ''manualscaler''
     = Panics ''invalid memory address or nil pointer dereference''"
  by (simp add: GenTraitName_def ComputeHash_def DeepHashObject_def fnv_liquid fnv_costarring
      del: Write32a.simps)

text \<open>
  Whatever the deep printer, it cannot keep apart more traits than there are sums: a
  printer with infinitely many prints gives two traits of different prints one name.
\<close>

lemma trait_names_collide:
  assumes "infinite (range F)"
  shows "\<exists>ct ct'. F ct \<noteq> F ct'
           \<and> GenTraitName F M c (Some ct) t = GenTraitName F M c (Some ct') t"
proof -
  have "\<not> inj_on fnv32a (range F)"
  proof
    assume "inj_on fnv32a (range F)"
    moreover have "finite (fnv32a ` range F)" by (rule finite_subset[OF subset_UNIV]) simp
    ultimately have "finite (range F)" by (rule finite_imageD[rotated])
    with assms show False by simp
  qed
  then obtain x y where "x \<in> range F" "y \<in> range F" "x \<noteq> y" "fnv32a x = fnv32a y"
    by (auto simp: inj_on_def)
  then show ?thesis using trait_names_equal[of F M c _ t] by (metis (no_types, lifting) imageE)
qed

section \<open>The naming override\<close>





section \<open>The assembler and the name of a workload\<close>













end
